theory Spec2Isabelle
  imports
    Complex_Main
    "HOL-Library.List_Lexorder"
    "HOL-Library.Char_ord"
    "HOL-Library.Product_Lexorder"
    "HOL-Library.Multiset"
begin

section \<open>Book structure detection of md-book\<close>

text \<open>
  A shallow embedding of \<^verbatim>\<open>structure_detector.py\<close>, of the constants of
  \<^verbatim>\<open>config.py\<close> it reads, and of the chapter creation of \<^verbatim>\<open>book_writer.py\<close>.

  Conventions.
  \<^item> Python text is a \<open>string\<close>; the character classes (\<open>\d\<close>, \<open>\s\<close>,
    \<open>str.lower\<close>, \<open>str.title\<close>, \<open>re.IGNORECASE\<close>) are the ASCII ones.
  \<^item> A path is the list of its parts, as pathlib keeps it (\<open>[''/'', ''book'', ''a.md'']\<close>);
    \<open>pjoin\<close> is \<open>Path.__truediv__\<close>, which drops empty and \<open>.\<close> parts. The file
    system is a picture \<open>path \<rightharpoonup> node\<close>: a file with its UTF-8 text (or none when
    \<open>read_text\<close> raises), or a directory with its listing in the order the OS returns
    it.
  \<^item> Values loaded by PyYAML and tomllib are dynamically typed: \<open>pyval\<close>. The Python
    built-ins applied to them (\<open>in\<close>, \<open>[]\<close>, \<open>.get\<close>, \<open>int\<close>, truth) follow CPython,
    each raise is an \<open>Inl\<close> of \<open>pyerr\<close>.
  \<^item> The libraries themselves (\<open>yaml.safe_load\<close>, \<open>yaml.dump\<close>, \<open>tomllib.loads\<close>,
    \<open>str\<close> on a loaded value) are parameters, the record \<open>lib\<close>: a loader returns
    \<open>None\<close> where the library raises. General theorems hold for every library.
\<close>

subsection \<open>Text\<close>

definition is_space :: "char \<Rightarrow> bool" where
  "is_space c = (c \<in> set [CHR 0x09, CHR 0x0A, CHR 0x0B, CHR 0x0C, CHR 0x0D,
                            CHR 0x1C, CHR 0x1D, CHR 0x1E, CHR 0x1F, CHR 0x20])"

definition is_digit :: "char \<Rightarrow> bool" where
  "is_digit c = (c \<in> set ''0123456789'')"

definition is_upper :: "char \<Rightarrow> bool" where
  "is_upper c = (c \<in> set ''ABCDEFGHIJKLMNOPQRSTUVWXYZ'')"

definition is_lower :: "char \<Rightarrow> bool" where
  "is_lower c = (c \<in> set ''abcdefghijklmnopqrstuvwxyz'')"

definition is_sep :: "char \<Rightarrow> bool" where
  "is_sep c = (c = CHR ''-'' \<or> c = CHR ''_'')"

definition to_lower :: "char \<Rightarrow> char" where
  "to_lower c = (case map_of (zip ''ABCDEFGHIJKLMNOPQRSTUVWXYZ'' ''abcdefghijklmnopqrstuvwxyz'') c of
                   Some l \<Rightarrow> l | None \<Rightarrow> c)"

definition to_upper :: "char \<Rightarrow> char" where
  "to_upper c = (case map_of (zip ''abcdefghijklmnopqrstuvwxyz'' ''ABCDEFGHIJKLMNOPQRSTUVWXYZ'') c of
                   Some u \<Rightarrow> u | None \<Rightarrow> c)"

text \<open>\<open>str.lower\<close>, \<open>str.upper\<close>, \<open>str.strip\<close>, \<open>str.startswith\<close>, \<open>str.endswith\<close>.\<close>

definition lower :: "string \<Rightarrow> string" where
  "lower s = map to_lower s"

definition upper :: "string \<Rightarrow> string" where
  "upper s = map to_upper s"

definition strip :: "string \<Rightarrow> string" where
  "strip s = rev (dropWhile is_space (rev (dropWhile is_space s)))"

definition startswith :: "string \<Rightarrow> string \<Rightarrow> bool" where
  "startswith s p = (take (length p) s = p)"

definition endswith :: "string \<Rightarrow> string \<Rightarrow> bool" where
  "endswith s p = (length p \<le> length s \<and> drop (length s - length p) s = p)"

text \<open>\<open>s.split(sep)\<close> for a one-character separator: never empty.\<close>

fun split_on :: "char \<Rightarrow> string \<Rightarrow> string list" where
  "split_on sep [] = [[]]"
| "split_on sep (c # cs) =
     (if c = sep then [] # split_on sep cs
      else (case split_on sep cs of [] \<Rightarrow> [[c]] | l # ls \<Rightarrow> (c # l) # ls))"

definition split_nl :: "string \<Rightarrow> string list" where
  "split_nl s = split_on (CHR 0x0A) s"

text \<open>\<open>k in s\<close> for two strings: \<open>k\<close> occurs in \<open>s\<close>.\<close>

fun contains_str :: "string \<Rightarrow> string \<Rightarrow> bool" where
  "contains_str k [] = (k = [])"
| "contains_str k (c # cs) = (startswith (c # cs) k \<or> contains_str k cs)"

text \<open>The value of a run of decimal digits (\<open>int(match.group(1))\<close>).\<close>

definition digit_val :: "char \<Rightarrow> int" where
  "digit_val c = (case map_of (zip ''0123456789'' [0, 1, 2, 3, 4, 5, 6, 7, 8, 9]) c of
                    Some d \<Rightarrow> d | None \<Rightarrow> 0)"

definition dec_val :: "string \<Rightarrow> int" where
  "dec_val ds = foldl (\<lambda>a c. 10 * a + digit_val c) 0 ds"

text \<open>
  \<^verbatim>\<open>re.sub(r'[...]+', r, s)\<close> for a character class \<open>P\<close> and a one-character
  replacement: every maximal run of \<open>P\<close> becomes one \<open>r\<close>. The flag says that the character
  before was in the class.
\<close>

fun sub_runs :: "(char \<Rightarrow> bool) \<Rightarrow> char \<Rightarrow> bool \<Rightarrow> string \<Rightarrow> string" where
  "sub_runs P r prev [] = []"
| "sub_runs P r prev (c # cs) =
     (if P c then (if prev then sub_runs P r True cs else r # sub_runs P r True cs)
      else c # sub_runs P r False cs)"

text \<open>\<open>str.title()\<close>: a character after a cased one is lowered, any other is raised.\<close>

fun title_case :: "bool \<Rightarrow> string \<Rightarrow> string" where
  "title_case prev [] = []"
| "title_case prev (c # cs) =
     (if prev then to_lower c else to_upper c) # title_case (is_upper c \<or> is_lower c) cs"

subsection \<open>Python values and the built-ins applied to them\<close>

datatype pyerr = TypeError | ValueError | OverflowError | AttributeError | KeyError | IndexError

datatype pyfloat = Finite rat | Infinity | NegInfinity | NaN

text \<open>
  \<open>PNone\<close> is Python's \<open>None\<close>; \<open>PDate\<close> stands for a \<open>datetime.date\<close> or
  \<open>datetime.datetime\<close> (a YAML or TOML timestamp), carrying its text. A \<open>PDict\<close> lists
  the items of a dict, whose keys are distinct.
\<close>

datatype pyval =
    PNone
  | PBool bool
  | PInt int
  | PFloat pyfloat
  | PStr string
  | PList "pyval list"
  | PDict "(pyval \<times> pyval) list"
  | PDate string

text \<open>Truth value: \<open>if x\<close>, \<open>not x\<close>, \<open>x or y\<close>.\<close>

fun py_truthy :: "pyval \<Rightarrow> bool" where
  "py_truthy PNone = False"
| "py_truthy (PBool b) = b"
| "py_truthy (PInt i) = (i \<noteq> 0)"
| "py_truthy (PFloat f) = (f \<noteq> Finite 0)"
| "py_truthy (PStr s) = (s \<noteq> [])"
| "py_truthy (PList xs) = (xs \<noteq> [])"
| "py_truthy (PDict kvs) = (kvs \<noteq> [])"
| "py_truthy (PDate d) = True"

definition py_or :: "pyval \<Rightarrow> pyval \<Rightarrow> pyval" where
  "py_or x y = (if py_truthy x then x else y)"

text \<open>\<open>'k' in v\<close> for a string key: a non-container raises TypeError.\<close>

fun py_contains :: "string \<Rightarrow> pyval \<Rightarrow> pyerr + bool" where
  "py_contains k (PDict kvs) = Inr (PStr k \<in> set (map fst kvs))"
| "py_contains k (PList xs) = Inr (PStr k \<in> set xs)"
| "py_contains k (PStr s) = Inr (contains_str k s)"
| "py_contains k PNone = Inl TypeError"
| "py_contains k (PBool b) = Inl TypeError"
| "py_contains k (PInt i) = Inl TypeError"
| "py_contains k (PFloat f) = Inl TypeError"
| "py_contains k (PDate d) = Inl TypeError"

text \<open>\<open>v['k']\<close> for a string key: only a dict can be indexed by a string.\<close>

fun py_getitem :: "pyval \<Rightarrow> string \<Rightarrow> pyerr + pyval" where
  "py_getitem (PDict kvs) k =
     (case map_of kvs (PStr k) of Some v \<Rightarrow> Inr v | None \<Rightarrow> Inl KeyError)"
| "py_getitem PNone k = Inl TypeError"
| "py_getitem (PBool b) k = Inl TypeError"
| "py_getitem (PInt i) k = Inl TypeError"
| "py_getitem (PFloat f) k = Inl TypeError"
| "py_getitem (PStr s) k = Inl TypeError"
| "py_getitem (PList xs) k = Inl TypeError"
| "py_getitem (PDate d) k = Inl TypeError"

text \<open>\<open>v.get('k', default)\<close>: only a dict has the method.\<close>

fun py_get :: "pyval \<Rightarrow> string \<Rightarrow> pyval \<Rightarrow> pyerr + pyval" where
  "py_get (PDict kvs) k d = Inr (case map_of kvs (PStr k) of Some v \<Rightarrow> v | None \<Rightarrow> d)"
| "py_get PNone k d = Inl AttributeError"
| "py_get (PBool b) k d = Inl AttributeError"
| "py_get (PInt i) k d = Inl AttributeError"
| "py_get (PFloat f) k d = Inl AttributeError"
| "py_get (PStr s) k d = Inl AttributeError"
| "py_get (PList xs) k d = Inl AttributeError"
| "py_get (PDate t) k d = Inl AttributeError"

text \<open>
  \<open>int(s)\<close> for a string: surrounding whitespace, one optional sign, then decimal digits
  with single underscores between them.
\<close>

fun no_double_underscore :: "string \<Rightarrow> bool" where
  "no_double_underscore (a # b # cs) =
     (\<not> (a = CHR ''_'' \<and> b = CHR ''_'') \<and> no_double_underscore (b # cs))"
| "no_double_underscore cs = True"

definition int_digits :: "string \<Rightarrow> int option" where
  "int_digits s =
     (if s \<noteq> [] \<and> is_digit (hd s) \<and> is_digit (last s)
         \<and> list_all (\<lambda>c. is_digit c \<or> c = CHR ''_'') s \<and> no_double_underscore s
      then Some (dec_val (filter is_digit s)) else None)"

definition int_of_str :: "string \<Rightarrow> int option" where
  "int_of_str s =
     (case strip s of
        [] \<Rightarrow> None
      | c # cs \<Rightarrow>
          if c = CHR ''-'' then map_option uminus (int_digits cs)
          else if c = CHR ''+'' then int_digits cs
          else int_digits (c # cs))"

text \<open>\<open>int(v)\<close>: a float is truncated towards zero; infinity raises OverflowError.\<close>

fun py_int :: "pyval \<Rightarrow> pyerr + int" where
  "py_int (PInt i) = Inr i"
| "py_int (PBool b) = Inr (if b then 1 else 0)"
| "py_int (PFloat (Finite r)) = Inr (if 0 \<le> r then \<lfloor>r\<rfloor> else \<lceil>r\<rceil>)"
| "py_int (PFloat Infinity) = Inl OverflowError"
| "py_int (PFloat NegInfinity) = Inl OverflowError"
| "py_int (PFloat NaN) = Inl ValueError"
| "py_int (PStr s) = (case int_of_str s of Some i \<Rightarrow> Inr i | None \<Rightarrow> Inl ValueError)"
| "py_int PNone = Inl TypeError"
| "py_int (PList xs) = Inl TypeError"
| "py_int (PDict kvs) = Inl TypeError"
| "py_int (PDate d) = Inl TypeError"

text \<open>\<open>v[0]\<close>: the first item of a list, the first character of a string, key 0 of a dict.\<close>

fun py_item0 :: "pyval \<Rightarrow> pyerr + pyval" where
  "py_item0 (PList xs) = (case xs of [] \<Rightarrow> Inl IndexError | x # _ \<Rightarrow> Inr x)"
| "py_item0 (PStr s) = (case s of [] \<Rightarrow> Inl IndexError | c # _ \<Rightarrow> Inr (PStr [c]))"
| "py_item0 (PDict kvs) =
     (case find (\<lambda>kv. fst kv \<in> set [PInt 0, PBool False, PFloat (Finite 0)]) kvs of
        Some kv \<Rightarrow> Inr (snd kv) | None \<Rightarrow> Inl KeyError)"
| "py_item0 PNone = Inl TypeError"
| "py_item0 (PBool b) = Inl TypeError"
| "py_item0 (PInt i) = Inl TypeError"
| "py_item0 (PFloat f) = Inl TypeError"
| "py_item0 (PDate d) = Inl TypeError"

text \<open>\<open>for x in v\<close>: the items of a list, the characters of a string, the keys of a dict.\<close>

fun py_iter :: "pyval \<Rightarrow> pyerr + pyval list" where
  "py_iter (PList xs) = Inr xs"
| "py_iter (PStr s) = Inr (map (\<lambda>c. PStr [c]) s)"
| "py_iter (PDict kvs) = Inr (map fst kvs)"
| "py_iter PNone = Inl TypeError"
| "py_iter (PBool b) = Inl TypeError"
| "py_iter (PInt i) = Inl TypeError"
| "py_iter (PFloat f) = Inl TypeError"
| "py_iter (PDate d) = Inl TypeError"

text \<open>Sequencing of calls that may raise, and a \<open>for\<close> loop whose body may raise.\<close>

definition ebind :: "pyerr + 'a \<Rightarrow> ('a \<Rightarrow> pyerr + 'b) \<Rightarrow> pyerr + 'b" where
  "ebind m f = (case m of Inl e \<Rightarrow> Inl e | Inr x \<Rightarrow> f x)"

fun efold :: "('a \<Rightarrow> 's \<Rightarrow> pyerr + 's) \<Rightarrow> 'a list \<Rightarrow> 's \<Rightarrow> pyerr + 's" where
  "efold body [] st = Inr st"
| "efold body (x # xs) st = ebind (body x st) (efold body xs)"

text \<open>The libraries the detector and the writer call.\<close>

record lib =
  yaml_available :: bool
  yaml_safe_load :: "string \<Rightarrow> pyval option"
  yaml_dump :: "pyval \<Rightarrow> string"
  toml_available :: bool
  toml_loads :: "string \<Rightarrow> pyval option"
  py_str :: "pyval \<Rightarrow> string"

subsection \<open>Paths and the file system\<close>

type_synonym path = "string list"

datatype node = File "string option" | Dir "string list"

type_synonym filesys = "path \<Rightarrow> node option"

definition path_parts :: "string \<Rightarrow> string list" where
  "path_parts s = filter (\<lambda>c. c \<noteq> [] \<and> c \<noteq> ''.'') (split_on (CHR ''/'') s)"

definition pjoin :: "path \<Rightarrow> string \<Rightarrow> path" where
  "pjoin base rel = (if startswith rel ''/'' then ''/'' # path_parts rel else base @ path_parts rel)"

definition path_exists :: "filesys \<Rightarrow> path \<Rightarrow> bool" where
  "path_exists fs p = (fs p \<noteq> None)"

definition read_text :: "filesys \<Rightarrow> path \<Rightarrow> string option" where
  "read_text fs p = (case fs p of Some (File (Some c)) \<Rightarrow> Some c | _ \<Rightarrow> None)"

definition listdir :: "filesys \<Rightarrow> path \<Rightarrow> string list" where
  "listdir fs p = (case fs p of Some (Dir names) \<Rightarrow> names | _ \<Rightarrow> [])"

text \<open>\<open>Path.name\<close>, \<open>Path.parent\<close>, \<open>Path.suffix\<close>, \<open>Path.stem\<close>, \<open>Path.with_suffix\<close>.\<close>

definition path_name :: "path \<Rightarrow> string" where
  "path_name p = (if p = [] \<or> p = [''/''] then [] else last p)"

definition path_parent :: "path \<Rightarrow> path" where
  "path_parent p = (if p = [''/''] then p else butlast p)"

definition name_suffix :: "string \<Rightarrow> string" where
  "name_suffix n =
     (let ext = rev (takeWhile (\<lambda>c. c \<noteq> CHR ''.'') (rev n))
      in if CHR ''.'' \<in> set n \<and> ext \<noteq> [] \<and> Suc (length ext) < length n
         then CHR ''.'' # ext else [])"

definition name_stem :: "string \<Rightarrow> string" where
  "name_stem n = take (length n - length (name_suffix n)) n"

definition path_suffix :: "path \<Rightarrow> string" where
  "path_suffix p = name_suffix (path_name p)"

definition path_stem :: "path \<Rightarrow> string" where
  "path_stem p = name_stem (path_name p)"

definition with_suffix :: "path \<Rightarrow> string \<Rightarrow> pyerr + path" where
  "with_suffix p ext =
     (if path_name p = [] then Inl ValueError
      else Inr (butlast p @ [path_stem p @ ext]))"

text \<open>
  \<open>dir.glob('*.md')\<close> and \<open>dir.glob('chapter-*')\<close>: the entries of the listing the
  pattern matches, as paths, in listing order.
\<close>

definition glob_md :: "filesys \<Rightarrow> path \<Rightarrow> path list" where
  "glob_md fs d = map (pjoin d) (filter (\<lambda>n. endswith n ''.md'') (listdir fs d))"

definition glob_chapter :: "filesys \<Rightarrow> path \<Rightarrow> path list" where
  "glob_chapter fs d = map (pjoin d) (filter (\<lambda>n. startswith n ''chapter-'') (listdir fs d))"

subsection \<open>The constants of config.py\<close>

definition INTRO_FILES :: "string list" where
  "INTRO_FILES = [''README.md'', ''readme.md'', ''index.md'', ''INDEX.md'',
                  ''introduction.md'', ''INTRODUCTION.md'', ''00-introduction.md'', ''00-intro.md'']"

definition SKIP_FILES :: "string list" where
  "SKIP_FILES = [''CONTRIBUTING.md'', ''CHANGELOG.md'', ''LICENSE.md'', ''CODE_OF_CONDUCT.md'']"

text \<open>
  \<open>re_tail k suf r\<close>: the rest \<open>r\<close> of a name matches \<^verbatim>\<open>.{k,}suf$\<close> under
  \<open>re.IGNORECASE\<close> (\<open>suf\<close> in lower case). The name ends in \<open>suf\<close>, or in \<open>suf\<close> and one
  final newline (where \<open>$\<close> also matches), with at least \<open>k\<close> characters and no newline
  before it (\<open>.\<close> matches none).
\<close>

definition re_tail :: "nat \<Rightarrow> string \<Rightarrow> string \<Rightarrow> bool" where
  "re_tail k suf r =
     ((endswith (lower r) suf \<and> k + length suf \<le> length r
         \<and> CHR 0x0A \<notin> set (take (length r - length suf) r))
      \<or> (endswith (lower r) (suf @ ''\<newline>'') \<and> k + length suf + 1 \<le> length r
         \<and> CHR 0x0A \<notin> set (take (length r - length suf - 1) r)))"

text \<open>
  The four CHAPTER\_FILE\_PATTERNS, each with the value of its first group. The digits
  group is greedy and what follows it accepts any rest that ends as required, so it is
  the whole run of digits.
  \<^verbatim>\<open>^(\d+)[-_](.+)\.md$\<close>
\<close>

definition pat_numbered :: "string \<Rightarrow> int option" where
  "pat_numbered n =
     (let d = takeWhile is_digit n; r = dropWhile is_digit n
      in if d \<noteq> [] \<and> r \<noteq> [] \<and> is_sep (hd r) \<and> re_tail 1 ''.md'' (tl r)
         then Some (dec_val d) else None)"

text \<open>
  \<^verbatim>\<open>^chapter[-_]?(\d+)[-_]?(.*)\.md$\<close> and \<^verbatim>\<open>^part[-_]?(\d+)[-_]?(.*)\.md$\<close>
  (\<open>sep\<close> true), \<^verbatim>\<open>^ch(\d+)[-_]?(.*)\.md$\<close> (\<open>sep\<close> false).
\<close>

definition pat_prefixed :: "string \<Rightarrow> bool \<Rightarrow> string \<Rightarrow> int option" where
  "pat_prefixed pre sep n =
     (if \<not> startswith (lower n) pre then None
      else let r0 = drop (length pre) n;
               r1 = (if sep \<and> r0 \<noteq> [] \<and> is_sep (hd r0) then tl r0 else r0);
               d = takeWhile is_digit r1;
               r = dropWhile is_digit r1
           in if d \<noteq> [] \<and> re_tail 0 ''.md'' r then Some (dec_val d) else None)"

definition CHAPTER_FILE_PATTERNS :: "(string \<Rightarrow> int option) list" where
  "CHAPTER_FILE_PATTERNS =
     [pat_numbered, pat_prefixed ''chapter'' True, pat_prefixed ''ch'' False,
      pat_prefixed ''part'' True]"

subsection \<open>The data model\<close>

record Chapter =
  number :: int
  title :: pyval
  file_path :: path
  is_intro :: bool
  is_draft :: pyval
  author :: pyval
  date :: "string option"
  metadata :: pyval

text \<open>
  \<open>Chapter(number, title, file_path, is_intro)\<close> with the defaults of the dataclass.
\<close>

definition new_Chapter :: "int \<Rightarrow> pyval \<Rightarrow> path \<Rightarrow> bool \<Rightarrow> Chapter" where
  "new_Chapter n t p i =
     \<lparr>number = n, title = t, file_path = p, is_intro = i, is_draft = PBool False,
      author = PNone, date = None, metadata = PDict []\<rparr>"

text \<open>
  The fields \<open>title\<close> and \<open>author\<close> of BookStructure are \<open>book_title\<close> and
  \<open>book_author\<close> here (a chapter has fields of the same names); \<open>PNone\<close> is absent.
\<close>

record BookStructure =
  format_type :: string
  book_title :: pyval
  book_author :: pyval
  chapters :: "Chapter list"
  root_path :: "path option"

definition new_BookStructure :: "string \<Rightarrow> path \<Rightarrow> BookStructure" where
  "new_BookStructure fmt book_root =
     \<lparr>format_type = fmt, book_title = PNone, book_author = PNone, chapters = [],
      root_path = Some book_root\<rparr>"

subsection \<open>Frontmatter\<close>

text \<open>
  \<^verbatim>\<open>re.search(r'\n---\s*\n', s)\<close>: the start of the leftmost match. A match starts
  where \<open>s\<close> reads a newline and three dashes, and the run of whitespace after them holds
  a newline.
\<close>

definition fm_end_at :: "string \<Rightarrow> bool" where
  "fm_end_at s = (startswith s ''\<newline>---'' \<and> CHR 0x0A \<in> set (takeWhile is_space (drop 4 s)))"

fun fm_end_search :: "string \<Rightarrow> nat option" where
  "fm_end_search [] = None"
| "fm_end_search (c # cs) =
     (if fm_end_at (c # cs) then Some 0 else map_option Suc (fm_end_search cs))"

text \<open>\<open>_parse_frontmatter\<close>: \<open>PNone\<close> is the \<open>None\<close> it returns.\<close>

definition parse_frontmatter :: "lib \<Rightarrow> string \<Rightarrow> pyval" where
  "parse_frontmatter L content =
     (if \<not> yaml_available L then PNone
      else if \<not> startswith content ''---'' then PNone
      else (case fm_end_search (drop 3 content) of
              None \<Rightarrow> PNone
            | Some e \<Rightarrow>
                (case yaml_safe_load L (take e (drop 3 content)) of
                   None \<Rightarrow> PNone
                 | Some v \<Rightarrow> v)))"

text \<open>\<open>if 'k' in frontmatter: ... frontmatter['k']\<close>: the value, when the key is there.\<close>

definition fm_field :: "pyval \<Rightarrow> string \<Rightarrow> pyerr + pyval option" where
  "fm_field fm k =
     ebind (py_contains k fm)
       (\<lambda>b. if b then ebind (py_getitem fm k) (\<lambda>v. Inr (Some v)) else Inr None)"

text \<open>
  The \<open>chapter\<close> key: \<open>int(frontmatter['chapter'])\<close> inside
  \<open>try ... except (ValueError, TypeError): pass\<close>. The membership test is outside the
  \<open>try\<close>; any other exception of the body leaves it.
\<close>

definition fm_chapter :: "pyval \<Rightarrow> int \<Rightarrow> pyerr + int" where
  "fm_chapter fm n =
     ebind (py_contains ''chapter'' fm)
       (\<lambda>b. if \<not> b then Inr n
            else (case ebind (py_getitem fm ''chapter'') py_int of
                    Inr i \<Rightarrow> Inr i
                  | Inl e \<Rightarrow> if e = ValueError \<or> e = TypeError then Inr n else Inl e))"

definition enrich_with_frontmatter :: "lib \<Rightarrow> filesys \<Rightarrow> Chapter \<Rightarrow> pyerr + Chapter" where
  "enrich_with_frontmatter L fs c =
     (case read_text fs (file_path c) of
        None \<Rightarrow> Inr c
      | Some content \<Rightarrow>
          let fm = parse_frontmatter L content in
          if \<not> py_truthy fm then Inr c
          else
            ebind (fm_field fm ''title'') (\<lambda>t.
            ebind (fm_field fm ''author'') (\<lambda>a.
            ebind (fm_field fm ''date'') (\<lambda>d.
            ebind (fm_field fm ''draft'') (\<lambda>dr.
            ebind (fm_chapter fm (number c)) (\<lambda>n.
              Inr (c\<lparr>title := (case t of Some v \<Rightarrow> v | None \<Rightarrow> title c),
                     author := (case a of Some v \<Rightarrow> v | None \<Rightarrow> author c),
                     date := (case d of Some v \<Rightarrow> Some (py_str L v) | None \<Rightarrow> date c),
                     is_draft := (case dr of Some v \<Rightarrow> v | None \<Rightarrow> is_draft c),
                     number := n,
                     metadata := fm\<rparr>)))))))"

subsection \<open>Titles\<close>

text \<open>The first line that, stripped, starts with \<open># \<close>: its text after the marker.\<close>

fun first_heading :: "string list \<Rightarrow> string option" where
  "first_heading [] = None"
| "first_heading (l # ls) =
     (if startswith (strip l) ''# '' then Some (strip (drop 2 (strip l))) else first_heading ls)"

text \<open>\<open>_extract_title_from_file\<close>: \<open>PNone\<close> is the \<open>None\<close> it returns.\<close>

definition extract_title_from_file :: "lib \<Rightarrow> filesys \<Rightarrow> path \<Rightarrow> pyerr + pyval" where
  "extract_title_from_file L fs p =
     (case read_text fs p of
        None \<Rightarrow> Inr PNone
      | Some content \<Rightarrow>
          let from_heading =
                (case first_heading (split_nl content) of Some h \<Rightarrow> PStr h | None \<Rightarrow> PNone)
          in if startswith content ''---'' then
               (let fm = parse_frontmatter L content in
                if \<not> py_truthy fm then Inr from_heading
                else ebind (py_contains ''title'' fm)
                       (\<lambda>b. if b then py_getitem fm ''title'' else Inr from_heading))
             else Inr from_heading)"

text \<open>
  \<open>_title_from_filename\<close>: \<^verbatim>\<open>re.sub(r'^\d+[-_]?', '', stem)\<close>, then
  \<^verbatim>\<open>re.sub(r'[-_]+', ' ', title)\<close>, then \<open>title()\<close>.
\<close>

definition strip_leading_number :: "string \<Rightarrow> string" where
  "strip_leading_number s =
     (let d = takeWhile is_digit s; r = dropWhile is_digit s
      in if d = [] then s else if r \<noteq> [] \<and> is_sep (hd r) then tl r else r)"

definition title_from_filename :: "string \<Rightarrow> string" where
  "title_from_filename stem =
     title_case False (sub_runs is_sep (CHR '' '') False (strip_leading_number stem))"

subsection \<open>Auto-detection\<close>

text \<open>
  \<open>_extract_sort_key\<close>: the leading digits of the stem, else the first of the
  CHAPTER\_FILE\_PATTERNS that matches the name, else 999999; paired with the stem.
\<close>

fun first_match :: "(string \<Rightarrow> int option) list \<Rightarrow> string \<Rightarrow> int option" where
  "first_match [] n = None"
| "first_match (pat # pats) n = (case pat n of Some v \<Rightarrow> Some v | None \<Rightarrow> first_match pats n)"

definition extract_sort_key :: "path \<Rightarrow> int \<times> string" where
  "extract_sort_key p =
     (let name = path_stem p
      in if takeWhile is_digit name \<noteq> [] then (dec_val (takeWhile is_digit name), name)
         else (case first_match CHAPTER_FILE_PATTERNS (path_name p) of
                 Some v \<Rightarrow> (v, name)
               | None \<Rightarrow> (999999, name)))"

text \<open>The key of \<open>md_files.sort\<close> in \<open>_auto_detect\<close>.\<close>

definition sort_key_of :: "path \<Rightarrow> (int \<times> string) \<times> string" where
  "sort_key_of p = (extract_sort_key p, lower (path_name p))"

text \<open>\<open>_pick_best_content_file\<close>, with the priority patterns as their suffixes.\<close>

fun pick_by :: "string list \<Rightarrow> path list \<Rightarrow> path option" where
  "pick_by [] files = None"
| "pick_by (suf # sufs) files =
     (case find (\<lambda>f. re_tail 0 suf (path_name f)) files of
        Some f \<Rightarrow> Some f
      | None \<Rightarrow> pick_by sufs files)"

definition pick_best_content_file :: "path list \<Rightarrow> path option" where
  "pick_best_content_file files =
     (if files = [] then None
      else (case pick_by [''complete.md'', ''enhanced.md'', ''revised.md'', ''final.md''] files of
              Some f \<Rightarrow> Some f
            | None \<Rightarrow> Some (hd files)))"

text \<open>
  \<open>_collect_markdown_files\<close>. \<open>chapter_dir_files\<close> is the body of the loop over the
  chapter directories: what it appends.
\<close>

definition chapter_dir_files :: "filesys \<Rightarrow> path \<Rightarrow> path list" where
  "chapter_dir_files fs chapter_dir =
     (let content_dir = pjoin chapter_dir ''content'';
          content_files = glob_md fs content_dir
      in if path_exists fs content_dir \<and> content_files \<noteq> []
         then (case pick_best_content_file content_files of Some f \<Rightarrow> [f] | None \<Rightarrow> [])
         else let direct_files =
                    filter (\<lambda>f. \<not> startswith (path_name f) ''_'') (glob_md fs chapter_dir)
              in if direct_files \<noteq> []
                 then (case pick_best_content_file direct_files of Some f \<Rightarrow> [f] | None \<Rightarrow> [])
                 else [])"

definition flat_candidate :: "path \<Rightarrow> bool" where
  "flat_candidate f =
     (\<not> startswith (path_name f) ''_''
      \<and> upper (path_name f) \<notin> set [''SUMMARY.MD'', ''BOOK.TXT'']
      \<and> path_name f \<notin> set INTRO_FILES
      \<and> path_name f \<notin> set SKIP_FILES)"

definition collect_markdown_files :: "filesys \<Rightarrow> path \<Rightarrow> path list" where
  "collect_markdown_files fs book_root =
     (let chapter_dirs = sort (glob_chapter fs book_root)
      in if chapter_dirs \<noteq> [] then concat (map (chapter_dir_files fs) chapter_dirs)
         else filter flat_candidate (glob_md fs book_root))"

text \<open>The introduction search: the first of INTRO\_FILES that exists.\<close>

definition find_intro :: "filesys \<Rightarrow> path \<Rightarrow> path option" where
  "find_intro fs book_root =
     find (path_exists fs) (map (pjoin book_root) INTRO_FILES)"

definition auto_intro :: "lib \<Rightarrow> filesys \<Rightarrow> path \<Rightarrow> pyerr + Chapter list" where
  "auto_intro L fs book_root =
     (case find_intro fs book_root of
        None \<Rightarrow> Inr []
      | Some intro_path \<Rightarrow>
          ebind (extract_title_from_file L fs intro_path) (\<lambda>t.
          ebind (enrich_with_frontmatter L fs
                   (new_Chapter 0 (py_or t (PStr ''Introduction'')) intro_path True))
            (\<lambda>c. Inr [c])))"

text \<open>
  The title of an auto-detected chapter:
  \<open>_extract_title_from_file(p) or _title_from_filename(p.stem)\<close>.
\<close>

definition auto_title :: "lib \<Rightarrow> filesys \<Rightarrow> path \<Rightarrow> pyerr + pyval" where
  "auto_title L fs p =
     ebind (extract_title_from_file L fs p)
       (\<lambda>t. Inr (py_or t (PStr (title_from_filename (path_stem p)))))"

text \<open>
  The body of the numbering loop; the state is \<open>(chapter_num, chapters)\<close>.
\<close>

definition auto_step ::
  "lib \<Rightarrow> filesys \<Rightarrow> path \<Rightarrow> int \<times> Chapter list \<Rightarrow> pyerr + int \<times> Chapter list" where
  "auto_step L fs p st =
     (if p \<in> set (map file_path (snd st)) then Inr st
      else if path_name p \<in> set SKIP_FILES then Inr st
      else ebind (auto_title L fs p) (\<lambda>t.
           ebind (enrich_with_frontmatter L fs (new_Chapter (fst st + 1) t p False))
             (\<lambda>c. Inr (fst st + 1, snd st @ [c]))))"

definition auto_detect :: "lib \<Rightarrow> filesys \<Rightarrow> path \<Rightarrow> pyerr + BookStructure" where
  "auto_detect L fs book_root =
     ebind (auto_intro L fs book_root) (\<lambda>intro.
     ebind (efold (auto_step L fs)
              (sort_key sort_key_of (collect_markdown_files fs book_root)) (0, intro))
       (\<lambda>st. Inr ((new_BookStructure ''auto'' book_root)\<lparr>chapters := snd st\<rparr>)))"

subsection \<open>The manifest parsers\<close>

text \<open>
  \<^verbatim>\<open>re.compile(r'\[([^\]]+)\]\(([^)]+\.md)\)').search(line)\<close>: the two groups of the
  leftmost match. \<open>link_at\<close> is the attempt at the head of the text: the first group
  runs to the first \<open>]\<close>, the second to the first \<open>)\<close> after \<open>](\<close>, and has to end in
  \<open>.md\<close> after at least one character.
\<close>

definition link_at :: "string \<Rightarrow> (string \<times> string) option" where
  "link_at s =
     (case s of
        [] \<Rightarrow> None
      | c # r \<Rightarrow>
          let t = takeWhile (\<lambda>x. x \<noteq> CHR '']'') r;
              r1 = dropWhile (\<lambda>x. x \<noteq> CHR '']'') r;
              u = takeWhile (\<lambda>x. x \<noteq> CHR '')'') (drop 2 r1);
              r2 = dropWhile (\<lambda>x. x \<noteq> CHR '')'') (drop 2 r1)
          in if c = CHR ''['' \<and> t \<noteq> [] \<and> startswith r1 ''](''
                \<and> r2 \<noteq> [] \<and> endswith u ''.md'' \<and> 4 \<le> length u
             then Some (t, u) else None)"

fun link_search :: "string \<Rightarrow> (string \<times> string) option" where
  "link_search [] = None"
| "link_search (c # cs) =
     (case link_at (c # cs) of Some m \<Rightarrow> Some m | None \<Rightarrow> link_search cs)"

text \<open>
  \<open>_parse_summary_md\<close>. \<open>summary_resolve\<close> is the path a link is read from: under the
  book root, else beside the manifest; \<open>summary_step\<close> is the body of the loop over the
  lines, the state is \<open>(chapter_num, chapters)\<close>.
\<close>

definition summary_resolve :: "filesys \<Rightarrow> path \<Rightarrow> path \<Rightarrow> string \<Rightarrow> path" where
  "summary_resolve fs book_root summary_path rel_path =
     (if path_exists fs (pjoin book_root rel_path) then pjoin book_root rel_path
      else pjoin (path_parent summary_path) rel_path)"

definition summary_step ::
  "lib \<Rightarrow> filesys \<Rightarrow> path \<Rightarrow> path \<Rightarrow> string \<Rightarrow> int \<times> Chapter list
     \<Rightarrow> pyerr + int \<times> Chapter list" where
  "summary_step L fs book_root summary_path line st =
     (case link_search line of
        None \<Rightarrow> Inr st
      | Some m \<Rightarrow>
          let title = strip (fst m);
              rel_path = strip (snd m);
              fp = summary_resolve fs book_root summary_path rel_path
          in if \<not> path_exists fs fp then Inr st
             else if lower rel_path \<in> set [''readme.md'', ''index.md'', ''introduction.md'']
             then ebind (enrich_with_frontmatter L fs (new_Chapter 0 (PStr title) fp True))
                    (\<lambda>c. Inr (fst st, snd st @ [c]))
             else ebind (enrich_with_frontmatter L fs
                           (new_Chapter (fst st + 1) (PStr title) fp False))
                    (\<lambda>c. Inr (fst st + 1, snd st @ [c])))"

definition parse_summary_md :: "lib \<Rightarrow> filesys \<Rightarrow> path \<Rightarrow> path \<Rightarrow> pyerr + BookStructure" where
  "parse_summary_md L fs book_root summary_path =
     (case read_text fs summary_path of
        None \<Rightarrow> auto_detect L fs book_root
      | Some content \<Rightarrow>
          ebind (efold (summary_step L fs book_root summary_path) (split_nl content) (0, []))
            (\<lambda>st. Inr ((new_BookStructure ''summary'' book_root)\<lparr>chapters := snd st\<rparr>)))"

text \<open>\<open>_parse_leanpub\<close>.\<close>

definition leanpub_step ::
  "lib \<Rightarrow> filesys \<Rightarrow> path \<Rightarrow> string \<Rightarrow> int \<times> Chapter list \<Rightarrow> pyerr + int \<times> Chapter list" where
  "leanpub_step L fs book_root raw st =
     (let line = strip raw
      in if line = [] \<or> startswith line ''#'' then Inr st
         else if line \<in> set [''frontmatter:'', ''mainmatter:'', ''backmatter:''] then Inr st
         else
           let manuscript_dir = pjoin book_root ''manuscript'';
               base_dir = (if path_exists fs manuscript_dir then manuscript_dir else book_root);
               fp = (if path_exists fs (pjoin base_dir line) then pjoin base_dir line
                     else pjoin book_root line)
           in if path_exists fs fp \<and> path_suffix fp = ''.md''
              then ebind (extract_title_from_file L fs fp) (\<lambda>t.
                     if lower line \<in> set [''introduction.md'', ''preface.md'', ''foreword.md'']
                     then ebind (enrich_with_frontmatter L fs
                                   (new_Chapter 0 (py_or t (PStr (path_stem fp))) fp True))
                            (\<lambda>c. Inr (fst st, snd st @ [c]))
                     else ebind (enrich_with_frontmatter L fs
                                   (new_Chapter (fst st + 1) (py_or t (PStr (path_stem fp))) fp False))
                            (\<lambda>c. Inr (fst st + 1, snd st @ [c])))
              else Inr st)"

definition parse_leanpub :: "lib \<Rightarrow> filesys \<Rightarrow> path \<Rightarrow> path \<Rightarrow> pyerr + BookStructure" where
  "parse_leanpub L fs book_root book_txt_path =
     (case read_text fs book_txt_path of
        None \<Rightarrow> auto_detect L fs book_root
      | Some content \<Rightarrow>
          ebind (efold (leanpub_step L fs book_root) (split_nl content) (0, []))
            (\<lambda>st. Inr ((new_BookStructure ''leanpub'' book_root)\<lparr>chapters := snd st\<rparr>)))"

text \<open>
  \<open>_parse_bookdown\<close>. \<open>bookdown_resolve\<close> is the file of a list entry: as named, else
  with the suffix \<open>.md\<close>, else none (\<open>continue\<close>).
\<close>

definition bookdown_resolve :: "filesys \<Rightarrow> path \<Rightarrow> string \<Rightarrow> pyerr + path option" where
  "bookdown_resolve fs book_root file_name =
     (if path_exists fs (pjoin book_root file_name) then Inr (Some (pjoin book_root file_name))
      else ebind (with_suffix (pjoin book_root file_name) ''.md'')
             (\<lambda>md_path. if path_exists fs md_path then Inr (Some md_path) else Inr None))"

definition bookdown_step ::
  "lib \<Rightarrow> filesys \<Rightarrow> path \<Rightarrow> pyval \<Rightarrow> pyval \<Rightarrow> int \<times> Chapter list
     \<Rightarrow> pyerr + int \<times> Chapter list" where
  "bookdown_step L fs book_root rmd_files entry st =
     (case entry of
        PStr file_name \<Rightarrow>
          ebind (bookdown_resolve fs book_root file_name) (\<lambda>r.
            case r of
              None \<Rightarrow> Inr st
            | Some fp \<Rightarrow>
                ebind (extract_title_from_file L fs fp) (\<lambda>t.
                ebind (if contains_str ''index'' (lower file_name) then Inr True
                       else ebind (py_item0 rmd_files) (\<lambda>x. Inr (x = PStr file_name)))
                  (\<lambda>is_intro.
                     if is_intro \<and> fst st = 0
                     then ebind (enrich_with_frontmatter L fs
                                   (new_Chapter 0 (py_or t (PStr (path_stem fp))) fp True))
                            (\<lambda>c. Inr (fst st, snd st @ [c]))
                     else ebind (enrich_with_frontmatter L fs
                                   (new_Chapter (fst st + 1) (py_or t (PStr (path_stem fp))) fp False))
                            (\<lambda>c. Inr (fst st + 1, snd st @ [c])))))
      | _ \<Rightarrow> Inl TypeError)"

definition parse_bookdown :: "lib \<Rightarrow> filesys \<Rightarrow> path \<Rightarrow> path \<Rightarrow> pyerr + BookStructure" where
  "parse_bookdown L fs book_root bookdown_path =
     (if \<not> yaml_available L then auto_detect L fs book_root
      else (case read_text fs bookdown_path of
              None \<Rightarrow> auto_detect L fs book_root
            | Some content \<Rightarrow>
                (case yaml_safe_load L content of
                   None \<Rightarrow> auto_detect L fs book_root
                 | Some config \<Rightarrow>
                     ebind (py_get config ''title'' PNone) (\<lambda>t.
                     ebind (py_get config ''book_filename'' t) (\<lambda>book_name.
                     ebind (py_get config ''rmd_files'' (PList [])) (\<lambda>rmd_files.
                     ebind (py_iter rmd_files) (\<lambda>entries.
                     ebind (efold (bookdown_step L fs book_root rmd_files) entries (0, []))
                       (\<lambda>st. Inr ((new_BookStructure ''bookdown'' book_root)
                                    \<lparr>book_title := book_name, chapters := snd st\<rparr>)))))))))"

text \<open>
  \<open>_parse_mdbook_toml\<close>. \<open>toml_meta\<close> is the \<open>try\<close> block: the title and the author the
  structure holds after it, whatever was raised inside.
\<close>

definition toml_authors :: "pyval \<Rightarrow> pyerr + pyval" where
  "toml_authors config =
     ebind (py_get config ''book'' (PDict [])) (\<lambda>b.
     ebind (py_get b ''authors'' PNone) (\<lambda>a.
       if py_truthy a
       then ebind (py_get config ''book'' (PDict [])) (\<lambda>b2.
            ebind (py_get b2 ''authors'' (PList [PNone])) py_item0)
       else Inr PNone))"

definition toml_meta :: "lib \<Rightarrow> filesys \<Rightarrow> path \<Rightarrow> pyval \<times> pyval" where
  "toml_meta L fs toml_path =
     (if \<not> toml_available L then (PNone, PNone)
      else (case read_text fs toml_path of
              None \<Rightarrow> (PNone, PNone)
            | Some content \<Rightarrow>
                (case toml_loads L content of
                   None \<Rightarrow> (PNone, PNone)
                 | Some config \<Rightarrow>
                     (case ebind (py_get config ''book'' (PDict []))
                             (\<lambda>b. py_get b ''title'' PNone) of
                        Inl e \<Rightarrow> (PNone, PNone)
                      | Inr t \<Rightarrow>
                          (case toml_authors config of
                             Inl e \<Rightarrow> (t, PNone)
                           | Inr a \<Rightarrow> (t, a))))))"

definition parse_mdbook_toml :: "lib \<Rightarrow> filesys \<Rightarrow> path \<Rightarrow> path \<Rightarrow> pyerr + BookStructure" where
  "parse_mdbook_toml L fs book_root toml_path =
     (let meta = toml_meta L fs toml_path;
          src_summary = pjoin (pjoin book_root ''src'') ''SUMMARY.md''
      in if path_exists fs src_summary
         then ebind (parse_summary_md L fs book_root src_summary)
                (\<lambda>summary_structure.
                   Inr ((new_BookStructure ''mdbook'' book_root)
                          \<lparr>book_title := fst meta, book_author := snd meta,
                           chapters := chapters summary_structure\<rparr>))
         else auto_detect L fs book_root)"

subsection \<open>The orchestrator\<close>

definition detect_structure :: "lib \<Rightarrow> filesys \<Rightarrow> path \<Rightarrow> pyerr + BookStructure" where
  "detect_structure L fs book_root =
     (if path_exists fs (pjoin book_root ''SUMMARY.md'')
      then parse_summary_md L fs book_root (pjoin book_root ''SUMMARY.md'')
      else if path_exists fs (pjoin book_root ''Book.txt'')
      then parse_leanpub L fs book_root (pjoin book_root ''Book.txt'')
      else if path_exists fs (pjoin book_root ''_bookdown.yml'')
      then parse_bookdown L fs book_root (pjoin book_root ''_bookdown.yml'')
      else if path_exists fs (pjoin book_root ''book.toml'')
      then parse_mdbook_toml L fs book_root (pjoin book_root ''book.toml'')
      else auto_detect L fs book_root)"

subsection \<open>The writer: chapter creation\<close>

text \<open>\<open>slugify\<close> of \<^verbatim>\<open>book_writer.py\<close>; \<open>\w\<close> is a letter, a digit or an underscore.\<close>

definition is_word :: "char \<Rightarrow> bool" where
  "is_word c = (is_digit c \<or> is_upper c \<or> is_lower c \<or> c = CHR ''_'')"

definition strip_dashes :: "string \<Rightarrow> string" where
  "strip_dashes s =
     rev (dropWhile (\<lambda>c. c = CHR ''-'') (rev (dropWhile (\<lambda>c. c = CHR ''-'') s)))"

definition slugify :: "string \<Rightarrow> string" where
  "slugify text =
     strip_dashes
       (sub_runs (\<lambda>c. is_space c \<or> is_sep c) (CHR ''-'') False
          (filter (\<lambda>c. is_word c \<or> is_space c \<or> c = CHR ''-'') (strip (lower text))))"

text \<open>\<open>f"{n:02d}"\<close>: the decimal digits of \<open>n\<close>, padded with a zero to two.\<close>

fun dec :: "nat \<Rightarrow> string" where
  "dec n = (if n < 10 then [''0123456789'' ! n] else dec (n div 10) @ [''0123456789'' ! (n mod 10)])"

definition fmt02d :: "nat \<Rightarrow> string" where
  "fmt02d n = (if n < 10 then CHR ''0'' # dec n else dec n)"

definition is_file :: "filesys \<Rightarrow> path \<Rightarrow> bool" where
  "is_file fs p = (case fs p of Some (File c) \<Rightarrow> True | _ \<Rightarrow> False)"

definition get_next_chapter_number :: "filesys \<Rightarrow> path \<Rightarrow> nat" where
  "get_next_chapter_number fs chapters_dir =
     (if \<not> path_exists fs chapters_dir then 1
      else nat (foldl (\<lambda>max_num item.
                    if is_file fs item \<and> path_suffix item = ''.md''
                       \<and> takeWhile is_digit (path_stem item) \<noteq> []
                    then max max_num (dec_val (takeWhile is_digit (path_stem item)))
                    else max_num)
             0 (map (pjoin chapters_dir) (listdir fs chapters_dir))) + 1)"

text \<open>
  \<open>new_chapter\<close>: the name and the text of the file it writes for chapter number \<open>n\<close>;
  \<open>today\<close> is \<open>date.today().isoformat()\<close>. \<open>None\<close> is the exit when there is no
  \<open>chapters/\<close> directory.
\<close>

definition chapter_frontmatter :: "string \<Rightarrow> nat \<Rightarrow> string \<Rightarrow> bool \<Rightarrow> (pyval \<times> pyval) list" where
  "chapter_frontmatter ttl n today draft =
     [(PStr ''title'', PStr ttl), (PStr ''chapter'', PInt (int n)), (PStr ''date'', PStr today)]
     @ (if draft then [(PStr ''draft'', PBool True)] else [])"

definition chapter_filename :: "nat \<Rightarrow> string \<Rightarrow> string" where
  "chapter_filename n ttl = fmt02d n @ ''-'' @ slugify ttl @ ''.md''"

definition chapter_content :: "lib \<Rightarrow> string \<Rightarrow> nat \<Rightarrow> string \<Rightarrow> bool \<Rightarrow> string" where
  "chapter_content L ttl n today draft =
     ''---\<newline>'' @ yaml_dump L (PDict (chapter_frontmatter ttl n today draft))
       @ ''---\<newline>\<newline># '' @ ttl @ ''\<newline>\<newline>''"

definition new_chapter ::
  "lib \<Rightarrow> filesys \<Rightarrow> path \<Rightarrow> string \<Rightarrow> bool \<Rightarrow> string \<Rightarrow> (path \<times> string) option" where
  "new_chapter L fs book_root ttl draft today =
     (let chapters_dir = pjoin book_root ''chapters''
      in if \<not> path_exists fs chapters_dir then None
         else let chapter_num = get_next_chapter_number fs chapters_dir
              in Some (pjoin chapters_dir (chapter_filename chapter_num ttl),
                       chapter_content L ttl chapter_num today draft))"

subsection \<open>Notions used in the statements\<close>



text \<open>
  The number the frontmatter of the file at \<open>p\<close> gives under \<open>chapter\<close>: the file is
  readable, its frontmatter holds the key, and \<open>int\<close> accepts the value.
\<close>

definition chapter_override :: "lib \<Rightarrow> filesys \<Rightarrow> path \<Rightarrow> int option" where
  "chapter_override L fs p =
     (case read_text fs p of
        None \<Rightarrow> None
      | Some c \<Rightarrow>
          let fm = parse_frontmatter L c
          in if py_truthy fm \<and> py_contains ''chapter'' fm = Inr True
             then (case ebind (py_getitem fm ''chapter'') py_int of
                     Inr i \<Rightarrow> Some i
                   | Inl e \<Rightarrow> None)
             else None)"

text \<open>
  The links of a manifest that the manifest-link parser reads and resolves, in order:
  the first link of each line, title and path stripped, kept when the path exists under
  the book root or beside the manifest. \<open>intro_link\<close>: the path of a link, lower-cased, is
  one of the three introduction names.
\<close>

definition line_link :: "filesys \<Rightarrow> path \<Rightarrow> path \<Rightarrow> string \<Rightarrow> (string \<times> string) list" where
  "line_link fs book_root summary_path line =
     (case link_search line of
        None \<Rightarrow> []
      | Some m \<Rightarrow>
          if path_exists fs (summary_resolve fs book_root summary_path (strip (snd m)))
          then [(strip (fst m), strip (snd m))] else [])"

definition summary_links :: "filesys \<Rightarrow> path \<Rightarrow> path \<Rightarrow> string \<Rightarrow> (string \<times> string) list" where
  "summary_links fs book_root summary_path content =
     concat (map (line_link fs book_root summary_path) (split_nl content))"

definition intro_link :: "string \<times> string \<Rightarrow> bool" where
  "intro_link m = (lower (snd m) \<in> set [''readme.md'', ''index.md'', ''introduction.md''])"

text \<open>
  The candidates the numbering loop of the auto-detector turns into chapters, in order:
  those that are not the file of a chapter made before (\<open>seen\<close>) and not in SKIP\_FILES.
\<close>

fun kept_candidates :: "path list \<Rightarrow> path list \<Rightarrow> path list" where
  "kept_candidates seen [] = []"
| "kept_candidates seen (p # ps) =
     (if p \<in> set seen \<or> path_name p \<in> set SKIP_FILES then kept_candidates seen ps
      else p # kept_candidates (seen @ [p]) ps)"

text \<open>
  PyYAML reads back what it dumped for a mapping with these items: the dumped text ends
  in a newline, none of its lines starts with three dashes, and \<open>safe_load\<close> of it (as the
  detector cuts it out of the file: after a newline and without the final newline) is a
  mapping with the same items.
\<close>

definition yaml_round_trip :: "lib \<Rightarrow> (pyval \<times> pyval) list \<Rightarrow> bool" where
  "yaml_round_trip L items =
     (let y = yaml_dump L (PDict items)
      in y \<noteq> [] \<and> last y = CHR 0x0A
         \<and> \<not> contains_str ''\<newline>---'' (CHR 0x0A # y)
         \<and> (case yaml_safe_load L (CHR 0x0A # butlast y) of
               Some (PDict kvs) \<Rightarrow> set kvs = set items
             | _ \<Rightarrow> False))"

text \<open>
  A chapter \<open>(title, number, date, draft)\<close> stands in the directory as \<open>new_chapter\<close>
  wrote it: the number is one \<open>get_next_chapter_number\<close> can give, the file has the name
  and the text of \<open>new_chapter\<close>, and PyYAML reads its frontmatter back.
\<close>

definition written_chapter ::
  "lib \<Rightarrow> filesys \<Rightarrow> path \<Rightarrow> string \<times> nat \<times> string \<times> bool \<Rightarrow> bool" where
  "written_chapter L fs dir w =
     (case w of (ttl, n, today, draft) \<Rightarrow>
        1 \<le> n
        \<and> fs (pjoin dir (chapter_filename n ttl))
            = Some (File (Some (chapter_content L ttl n today draft)))
        \<and> yaml_round_trip L (chapter_frontmatter ttl n today draft))"

subsection \<open>Concrete books\<close>

text \<open>
  The examples below run the detector on small books. \<open>sample_lib\<close> gives the libraries
  on the texts these books hold: what PyYAML's \<open>safe_load\<close> and \<open>dump\<close> and tomllib's
  \<open>loads\<close> return on them. No example hands the libraries any other text.
\<close>

definition sample_yaml :: "string \<Rightarrow> pyval option" where
  "sample_yaml s =
     (if s = ''\<newline>42'' then Some (PInt 42)
      else if s = ''\<newline>chapter: 5'' then Some (PDict [(PStr ''chapter'', PInt 5)])
      else if s = ''\<newline>chapter: .inf'' then Some (PDict [(PStr ''chapter'', PFloat Infinity)])
      else if s = ''\<newline>chapter: 1\<newline>date: '2026-11-04'\<newline>title: My Chapter''
      then Some (PDict [(PStr ''chapter'', PInt 1), (PStr ''date'', PStr ''2026-11-04''),
                        (PStr ''title'', PStr ''My Chapter'')])
      else None)"

definition sample_toml :: "string \<Rightarrow> pyval option" where
  "sample_toml s =
     (if s = ''[book]\<newline>title = 'T'\<newline>authors = ['A']\<newline>''
      then Some (PDict [(PStr ''book'',
                   PDict [(PStr ''title'', PStr ''T''), (PStr ''authors'', PList [PStr ''A''])])])
      else None)"

definition sample_dump :: "pyval \<Rightarrow> string" where
  "sample_dump v =
     (if v = PDict (chapter_frontmatter ''My Chapter'' 1 ''2026-11-04'' False)
      then ''chapter: 1\<newline>date: '2026-11-04'\<newline>title: My Chapter\<newline>''
      else [])"

definition sample_lib :: lib where
  "sample_lib =
     \<lparr>yaml_available = True, yaml_safe_load = sample_yaml, yaml_dump = sample_dump,
      toml_available = True, toml_loads = sample_toml, py_str = (\<lambda>v. [])\<rparr>"

definition book :: path where
  "book = [''/'', ''book'']"

text \<open>
  A book with a manifest of links; it also holds a nested manifest and a plain-text
  manifest, which \<open>detect_structure\<close> does not reach.
\<close>

definition summary_text :: string where
  "summary_text =
     ''# My Book\<newline>'' @
     ''- [Intro](README.md)\<newline>'' @
     ''- [Index](index.md)\<newline>'' @
     ''- [Nested](docs/README.md)\<newline>'' @
     ''- [A](a.md) [B](b.md)\<newline>'' @
     ''- [Gone](missing.md)\<newline>''"

definition fs_summary :: filesys where
  "fs_summary = map_of
     [(book, Dir [''SUMMARY.md'', ''README.md'', ''index.md'', ''docs'', ''a.md'', ''b.md'',
                  ''src'', ''Book.txt'']),
      (book @ [''SUMMARY.md''], File (Some summary_text)),
      (book @ [''src''], Dir [''SUMMARY.md'']),
      (book @ [''src'', ''SUMMARY.md''], File (Some ''- [A](a.md)\<newline>- [B](b.md)\<newline>'')),
      (book @ [''Book.txt''], File (Some ''a.md\<newline>b.md\<newline>'')),
      (book @ [''README.md''], File (Some ''# Welcome\<newline>'')),
      (book @ [''index.md''], File (Some ''# Index\<newline>'')),
      (book @ [''docs''], Dir [''README.md'']),
      (book @ [''docs'', ''README.md''], File (Some ''# Docs\<newline>'')),
      (book @ [''a.md''], File (Some ''# A\<newline>'')),
      (book @ [''b.md''], File (Some ''# B\<newline>''))]"

text \<open>A book without a manifest.\<close>

definition fs_flat :: filesys where
  "fs_flat = map_of
     [(book, Dir [''a.md'', ''02-two.md'', ''1000000-z.md'', ''B.md'', ''03.md'', ''01-one.md'',
                  ''readme.md'']),
      (book @ [''a.md''], File (Some ''# Appendix\<newline>'')),
      (book @ [''02-two.md''], File (Some ''# Two\<newline>'')),
      (book @ [''1000000-z.md''], File (Some ''# Last\<newline>'')),
      (book @ [''B.md''], File (Some ''# Bibliography\<newline>'')),
      (book @ [''03.md''], File (Some [])),
      (book @ [''01-one.md''], File (Some ''---\<newline>chapter: 5\<newline>---\<newline>text\<newline>'')),
      (book @ [''readme.md''], File (Some ''hello\<newline>''))]"

text \<open>Two books with one chapter each, whose frontmatter is not a mapping of plain values.\<close>

definition fs_scalar :: filesys where
  "fs_scalar = map_of
     [(book, Dir [''01-a.md'']),
      (book @ [''01-a.md''], File (Some ''---\<newline>42\<newline>---\<newline># A\<newline>''))]"

definition fs_inf :: filesys where
  "fs_inf = map_of
     [(book, Dir [''01-a.md'']),
      (book @ [''01-a.md''], File (Some ''---\<newline>chapter: .inf\<newline>---\<newline># A\<newline>''))]"



text \<open>What the examples show of a result: number, title, file and intro flag by chapter.\<close>

definition chapter_rows ::
  "pyerr + BookStructure \<Rightarrow> pyerr + (int \<times> pyval \<times> path \<times> bool) list" where
  "chapter_rows r =
     (case r of
        Inl e \<Rightarrow> Inl e
      | Inr s \<Rightarrow> Inr (map (\<lambda>c. (number c, title c, file_path c, is_intro c)) (chapters s)))"

section \<open>Properties\<close>

subsection \<open>Sequencing and loops\<close>

declare dec.simps [simp del]

lemma ebind_Inl [simp]: "ebind (Inl e) f = Inl e"
  by (simp add: ebind_def)

lemma ebind_Inr [simp]: "ebind (Inr x) f = f x"
  by (simp add: ebind_def)

lemma ebind_eq_Inr: "ebind m f = Inr y \<longleftrightarrow> (\<exists>x. m = Inr x \<and> f x = Inr y)"
  by (cases m) simp_all

lemma ebind_eq_Inl: "ebind m f = Inl e \<longleftrightarrow> (m = Inl e \<or> (\<exists>x. m = Inr x \<and> f x = Inl e))"
  by (cases m) simp_all


subsection \<open>What enrichment and the loop bodies leave alone\<close>

lemma read_text_exists: "read_text fs p = Some c \<Longrightarrow> path_exists fs p"
  by (auto simp: read_text_def path_exists_def split: option.splits)

lemma enrich_frame:
  assumes "enrich_with_frontmatter L fs c = Inr c'"
  shows "is_intro c' = is_intro c \<and> file_path c' = file_path c"
proof (cases "read_text fs (file_path c)")
  case None
  then show ?thesis using assms by (simp add: enrich_with_frontmatter_def)
next
  case (Some content)
  show ?thesis
  proof (cases "py_truthy (parse_frontmatter L content)")
    case False
    then show ?thesis using assms Some by (simp add: enrich_with_frontmatter_def)
  next
    case True
    then obtain t a d dr n where
      "c' = c\<lparr>title := (case t of Some v \<Rightarrow> v | None \<Rightarrow> title c),
              author := (case a of Some v \<Rightarrow> v | None \<Rightarrow> author c),
              date := (case d of Some v \<Rightarrow> Some (py_str L v) | None \<Rightarrow> date c),
              is_draft := (case dr of Some v \<Rightarrow> v | None \<Rightarrow> is_draft c),
              number := n,
              metadata := parse_frontmatter L content\<rparr>"
      using assms Some by (auto simp: enrich_with_frontmatter_def ebind_eq_Inr Let_def)
    then show ?thesis by simp
  qed
qed

lemma enrich_new_Chapter:
  assumes "enrich_with_frontmatter L fs (new_Chapter n t p i) = Inr c"
  shows "is_intro c = i \<and> file_path c = p"
  using enrich_frame[OF assms] by (simp add: new_Chapter_def)



lemma auto_detect_chapters:
  assumes "auto_detect L fs r = Inr s"
  obtains intro st where "auto_intro L fs r = Inr intro"
    and "efold (auto_step L fs) (sort_key sort_key_of (collect_markdown_files fs r)) (0, intro) = Inr st"
    and "chapters s = snd st"
  using assms by (auto simp: auto_detect_def ebind_eq_Inr new_BookStructure_def)



lemma parse_summary_chapters:
  assumes "parse_summary_md L fs r sp = Inr s" and "read_text fs sp = Some content"
  obtains st where "efold (summary_step L fs r sp) (split_nl content) (0, []) = Inr st"
    and "chapters s = snd st"
  using assms by (auto simp: parse_summary_md_def ebind_eq_Inr new_BookStructure_def)


subsection \<open>Frontmatter that is not a mapping of plain values\<close>

text \<open>
  C4. A readable book whose only chapter file opens with a frontmatter block holding the
  YAML scalar \<open>42\<close>: \<open>detect_structure\<close> raises TypeError (from \<open>'title' in 42\<close> in
  \<open>_extract_title_from_file\<close>) instead of returning a structure.
\<close>

theorem detect_structure_scalar_frontmatter_raises:
  "detect_structure sample_lib fs_scalar book = Inl TypeError"
  by code_simp

text \<open>
  C8. A chapter file whose frontmatter gives \<open>chapter: .inf\<close>: \<open>int\<close> raises OverflowError,
  which \<open>except (ValueError, TypeError)\<close> does not catch. The provisional number is not
  kept: enrichment, and with it the whole detection, raises.
\<close>

theorem enrich_chapter_infinity_raises:
  "enrich_with_frontmatter sample_lib fs_inf (new_Chapter 1 (PStr ''A'') (book @ [''01-a.md'']) False)
     = Inl OverflowError
   \<and> detect_structure sample_lib fs_inf book = Inl OverflowError"
  by code_simp

subsection \<open>The introduction flag\<close>





subsection \<open>Titles\<close>















subsection \<open>The order of the candidates\<close>








subsection \<open>book.toml without a nested manifest\<close>




subsection \<open>Numbers after enrichment\<close>

lemma fm_chapter_Inr:
  assumes "fm_chapter fm n0 = Inr n"
  shows "n = (if py_contains ''chapter'' fm = Inr True
              then (case ebind (py_getitem fm ''chapter'') py_int of Inr i \<Rightarrow> i | Inl e \<Rightarrow> n0)
              else n0)"
  using assms
  by (auto simp: fm_chapter_def ebind_eq_Inr split: if_splits sum.splits)

lemma enrich_number:
  assumes "enrich_with_frontmatter L fs c = Inr c'"
  shows "number c' = (case chapter_override L fs (file_path c) of Some i \<Rightarrow> i | None \<Rightarrow> number c)"
proof (cases "read_text fs (file_path c)")
  case None
  then show ?thesis using assms by (simp add: enrich_with_frontmatter_def chapter_override_def)
next
  case (Some content)
  show ?thesis
  proof (cases "py_truthy (parse_frontmatter L content)")
    case False
    then show ?thesis using assms Some
      by (simp add: enrich_with_frontmatter_def chapter_override_def)
  next
    case True
    then obtain n where n: "fm_chapter (parse_frontmatter L content) (number c) = Inr n"
      and c': "number c' = n"
      using assms Some by (auto simp: enrich_with_frontmatter_def ebind_eq_Inr Let_def)
    show ?thesis using fm_chapter_Inr[OF n] c' True Some
      by (auto simp: chapter_override_def Let_def split: sum.splits)
  qed
qed

lemma enrich_new_Chapter_number:
  assumes "enrich_with_frontmatter L fs (new_Chapter n t p i) = Inr c"
  shows "number c = (case chapter_override L fs p of Some k \<Rightarrow> k | None \<Rightarrow> n)"
  using enrich_number[OF assms] by (simp add: new_Chapter_def split: option.splits)

text \<open>The manifest-link loop, from any state.\<close>

lemma summary_step_no_link:
  assumes "line_link fs r sp line = []"
  shows "summary_step L fs r sp line st = Inr st"
  using assms by (auto simp: line_link_def summary_step_def Let_def split: option.splits if_splits)

lemma summary_step_link:
  assumes "line_link fs r sp line = [m]"
  shows "summary_step L fs r sp line st =
           (if intro_link m
            then ebind (enrich_with_frontmatter L fs
                          (new_Chapter 0 (PStr (fst m)) (summary_resolve fs r sp (snd m)) True))
                   (\<lambda>c. Inr (fst st, snd st @ [c]))
            else ebind (enrich_with_frontmatter L fs
                          (new_Chapter (fst st + 1) (PStr (fst m)) (summary_resolve fs r sp (snd m)) False))
                   (\<lambda>c. Inr (fst st + 1, snd st @ [c])))"
  using assms
  by (auto simp: line_link_def summary_step_def Let_def intro_link_def split: option.splits if_splits)

lemma line_link_cases:
  "line_link fs r sp line = [] \<or> (\<exists>m. line_link fs r sp line = [m])"
  by (auto simp: line_link_def split: option.splits)

lemma summary_loop_result:
  assumes "efold (summary_step L fs r sp) lines (n, acc) = Inr (n', acc')"
    and "ls = concat (map (line_link fs r sp) lines)"
  shows "\<exists>new. acc' = acc @ new
      \<and> map file_path new = map (\<lambda>m. summary_resolve fs r sp (snd m)) ls
      \<and> map is_intro new = map intro_link ls
      \<and> (\<forall>k<length new. number (new ! k) =
            (case chapter_override L fs (file_path (new ! k)) of
               Some i \<Rightarrow> i
             | None \<Rightarrow> if is_intro (new ! k) then 0
                       else n + int (length (filter (\<lambda>m. \<not> intro_link m) (take (Suc k) ls)))))"
  using assms
proof (induction lines arbitrary: n acc ls)
  case Nil
  then show ?case by simp
next
  case (Cons line lines)
  from line_link_cases[of fs r sp line] show ?case
  proof
    assume e: "line_link fs r sp line = []"
    then have f: "efold (summary_step L fs r sp) lines (n, acc) = Inr (n', acc')"
      using Cons.prems by (simp add: summary_step_no_link)
    have l: "ls = concat (map (line_link fs r sp) lines)" using Cons.prems(2) e by simp
    from Cons.IH[OF f l] show ?thesis .
  next
    assume "\<exists>m. line_link fs r sp line = [m]"
    then obtain m where m: "line_link fs r sp line = [m]" by blast
    define ls' where "ls' = concat (map (line_link fs r sp) lines)"
    have ls: "ls = m # ls'" using Cons.prems(2) m by (simp add: ls'_def)
    let ?p = "summary_resolve fs r sp (snd m)"
    let ?n1 = "if intro_link m then n else n + 1"
    from Cons.prems(1) obtain c where
      c: "enrich_with_frontmatter L fs
            (new_Chapter (if intro_link m then 0 else n + 1) (PStr (fst m)) ?p (intro_link m)) = Inr c"
      and rest: "efold (summary_step L fs r sp) lines (?n1, acc @ [c]) = Inr (n', acc')"
      by (auto simp: summary_step_link[OF m] ebind_eq_Inr split: if_splits)
    from Cons.IH[OF rest ls'_def] obtain new where
      a: "acc' = (acc @ [c]) @ new"
      and p: "map file_path new = map (\<lambda>m. summary_resolve fs r sp (snd m)) ls'"
      and i: "map is_intro new = map intro_link ls'"
      and k: "\<forall>k<length new. number (new ! k) =
            (case chapter_override L fs (file_path (new ! k)) of
               Some i \<Rightarrow> i
             | None \<Rightarrow> if is_intro (new ! k) then 0
                       else ?n1 + int (length (filter (\<lambda>m. \<not> intro_link m) (take (Suc k) ls'))))"
      by blast
    have cf: "is_intro c = intro_link m \<and> file_path c = ?p" using enrich_new_Chapter[OF c] .
    have cn: "number c = (case chapter_override L fs ?p of Some k \<Rightarrow> k
                          | None \<Rightarrow> if intro_link m then 0 else n + 1)"
      using enrich_new_Chapter_number[OF c] .
    have "\<forall>k<length (c # new). number ((c # new) ! k) =
            (case chapter_override L fs (file_path ((c # new) ! k)) of
               Some i \<Rightarrow> i
             | None \<Rightarrow> if is_intro ((c # new) ! k) then 0
                       else n + int (length (filter (\<lambda>m. \<not> intro_link m) (take (Suc k) (m # ls')))))"
    proof (intro allI impI)
      fix j assume j: "j < length (c # new)"
      show "number ((c # new) ! j) =
            (case chapter_override L fs (file_path ((c # new) ! j)) of
               Some i \<Rightarrow> i
             | None \<Rightarrow> if is_intro ((c # new) ! j) then 0
                       else n + int (length (filter (\<lambda>m. \<not> intro_link m) (take (Suc j) (m # ls')))))"
      proof (cases j)
        case 0
        then show ?thesis using cf cn by (simp split: option.splits)
      next
        case (Suc j')
        then have "j' < length new" using j by simp
        with k have "number (new ! j') =
            (case chapter_override L fs (file_path (new ! j')) of
               Some i \<Rightarrow> i
             | None \<Rightarrow> if is_intro (new ! j') then 0
                       else ?n1 + int (length (filter (\<lambda>m. \<not> intro_link m) (take (Suc j') ls'))))"
          by blast
        then show ?thesis using Suc by (simp split: option.splits)
      qed
    qed
    then show ?thesis unfolding ls using a p i cf
      by (intro exI[of _ "c # new"]) simp
  qed
qed

subsection \<open>The manifest-link parser\<close>





text \<open>
  C3, as amended. The \<open>k\<close>-th chapter of the manifest-link parser is the \<open>k\<close>-th link read
  and resolved. It is an introduction exactly when the path of the link as written,
  lower-cased, is \<open>readme.md\<close>, \<open>index.md\<close> or \<open>introduction.md\<close>. Its number is the
  integer its frontmatter gives under \<open>chapter\<close>, if any; otherwise 0 for an introduction,
  and for any other link its rank among the other links so far (1, 2, ... in link order,
  whatever digits its path holds).
\<close>

theorem summary_intro_and_numbers:
  assumes "read_text fs sp = Some content"
    and "parse_summary_md L fs r sp = Inr s"
    and "k < length (chapters s)"
  shows "length (chapters s) = length (summary_links fs r sp content)
    \<and> (let c = chapters s ! k; m = summary_links fs r sp content ! k
       in file_path c = summary_resolve fs r sp (snd m)
          \<and> is_intro c = intro_link m
          \<and> number c =
              (case chapter_override L fs (file_path c) of
                 Some i \<Rightarrow> i
               | None \<Rightarrow>
                   if intro_link m then 0
                   else int (length (filter (\<lambda>m. \<not> intro_link m)
                                       (take (Suc k) (summary_links fs r sp content))))))"
proof -
  from assms(2,1) obtain st where f: "efold (summary_step L fs r sp) (split_nl content) (0, []) = Inr st"
    and s: "chapters s = snd st"
    by (rule parse_summary_chapters)
  obtain n' acc' where st: "st = (n', acc')" by (cases st)
  let ?ls = "summary_links fs r sp content"
  from summary_loop_result[OF f[unfolded st] summary_links_def] s st
  have p: "map file_path (chapters s) = map (\<lambda>m. summary_resolve fs r sp (snd m)) ?ls"
    and i: "map is_intro (chapters s) = map intro_link ?ls"
    and n: "\<forall>k<length (chapters s). number (chapters s ! k) =
            (case chapter_override L fs (file_path (chapters s ! k)) of
               Some i \<Rightarrow> i
             | None \<Rightarrow> if is_intro (chapters s ! k) then 0
                       else 0 + int (length (filter (\<lambda>m. \<not> intro_link m) (take (Suc k) ?ls))))"
    by auto
  have l: "length (chapters s) = length ?ls" using p by (metis length_map)
  have pk: "file_path (chapters s ! k) = summary_resolve fs r sp (snd (?ls ! k))"
    using p assms(3) l by (metis nth_map)
  have ik: "is_intro (chapters s ! k) = intro_link (?ls ! k)"
    using i assms(3) l by (metis nth_map)
  show ?thesis using l pk ik n assms(3) by (simp add: Let_def split: option.splits)
qed



text \<open>
  The theorem at work on \<open>fs_summary\<close>: the fourth chapter is the link to \<open>a.md\<close>, it is
  no introduction, and it is the second of the other links.
\<close>

theorem summary_intro_and_numbers_witness:
  "read_text fs_summary (book @ [''SUMMARY.md'']) = Some summary_text
   \<and> \<not> isl (parse_summary_md sample_lib fs_summary book (book @ [''SUMMARY.md'']))
   \<and> summary_links fs_summary book (book @ [''SUMMARY.md'']) summary_text ! 3 = (''A'', ''a.md'')
   \<and> \<not> intro_link (''A'', ''a.md'')
   \<and> chapter_override sample_lib fs_summary (book @ [''a.md'']) = None
   \<and> file_path (chapters (projr (parse_summary_md sample_lib fs_summary book (book @ [''SUMMARY.md'']))) ! 3)
        = book @ [''a.md'']
   \<and> \<not> is_intro (chapters (projr (parse_summary_md sample_lib fs_summary book (book @ [''SUMMARY.md'']))) ! 3)
   \<and> number (chapters (projr (parse_summary_md sample_lib fs_summary book (book @ [''SUMMARY.md'']))) ! 3) = 2"
proof -
  let ?sp = "book @ [''SUMMARY.md'']"
  let ?r = "parse_summary_md sample_lib fs_summary book ?sp"
  have rd: "read_text fs_summary ?sp = Some summary_text" by code_simp
  have e: "?r = Inr (projr ?r)" by code_simp
  have l: "3 < length (chapters (projr ?r))" by code_simp
  have ls: "summary_links fs_summary book ?sp summary_text =
        [(''Intro'', ''README.md''), (''Index'', ''index.md''), (''Nested'', ''docs/README.md''),
         (''A'', ''a.md'')]" by code_simp
  have m: "\<not> intro_link (''A'', ''a.md'')" "\<not> intro_link (''Nested'', ''docs/README.md'')"
    "intro_link (''Intro'', ''README.md'')" "intro_link (''Index'', ''index.md'')" by code_simp+
  have rs: "summary_resolve fs_summary book ?sp ''a.md'' = book @ [''a.md'']" by code_simp
  have ov: "chapter_override sample_lib fs_summary (book @ [''a.md'']) = None" by code_simp
  have i: "\<not> isl ?r" by (subst e) simp
  from summary_intro_and_numbers[OF rd e l]
  have "file_path (chapters (projr ?r) ! 3) = book @ [''a.md'']
      \<and> \<not> is_intro (chapters (projr ?r) ! 3)
      \<and> number (chapters (projr ?r) ! 3) = 2"
    by (simp add: ls Let_def m rs ov)
  then show ?thesis using rd i ls m ov by simp
qed

text \<open>
  C3 as stated fails: the link to \<open>docs/README.md\<close> resolves to a file named
  \<open>README.md\<close>, yet its chapter is no introduction and has number 1; and both the first
  and the second introduction link get number 0.
\<close>

theorem nested_readme_is_not_intro:
  "(case detect_structure sample_lib fs_summary book of
      Inl e \<Rightarrow> []
    | Inr s \<Rightarrow> map (\<lambda>c. (lower (path_name (file_path c)), is_intro c, number c)) (chapters s))
   = [(''readme.md'', True, 0), (''index.md'', True, 0), (''readme.md'', False, 1),
      (''a.md'', False, 2)]"
  by code_simp

subsection \<open>The numbers of the auto-detector\<close>

lemma auto_intro_cases:
  assumes "auto_intro L fs r = Inr cs"
  shows "(find_intro fs r = None \<and> cs = [])
       \<or> (\<exists>c p. find_intro fs r = Some p \<and> cs = [c] \<and> is_intro c \<and> file_path c = p)"
  using assms
  by (auto simp: auto_intro_def ebind_eq_Inr split: option.splits dest!: enrich_new_Chapter)

lemma auto_step_skip:
  assumes "p \<in> set (map file_path acc) \<or> path_name p \<in> set SKIP_FILES"
  shows "auto_step L fs p (n, acc) = Inr (n, acc)"
  using assms by (auto simp: auto_step_def)

lemma auto_step_keep:
  assumes "\<not> (p \<in> set (map file_path acc) \<or> path_name p \<in> set SKIP_FILES)"
  shows "auto_step L fs p (n, acc) =
           ebind (auto_title L fs p) (\<lambda>t.
           ebind (enrich_with_frontmatter L fs (new_Chapter (n + 1) t p False))
             (\<lambda>c. Inr (n + 1, acc @ [c])))"
  using assms by (auto simp: auto_step_def)

lemma auto_loop_result:
  assumes "efold (auto_step L fs) ps (n, acc) = Inr (n', acc')"
  shows "\<exists>new. acc' = acc @ new
      \<and> map file_path new = kept_candidates (map file_path acc) ps
      \<and> list_all (\<lambda>c. \<not> is_intro c) new
      \<and> (\<forall>k<length new. number (new ! k) =
            (case chapter_override L fs (file_path (new ! k)) of
               Some i \<Rightarrow> i
             | None \<Rightarrow> n + int k + 1))"
  using assms
proof (induction ps arbitrary: n acc)
  case Nil
  then show ?case by simp
next
  case (Cons p ps)
  show ?case
  proof (cases "p \<in> set (map file_path acc) \<or> path_name p \<in> set SKIP_FILES")
    case True
    then have "efold (auto_step L fs) ps (n, acc) = Inr (n', acc')"
      using Cons.prems by (simp add: auto_step_skip)
    from Cons.IH[OF this] show ?thesis using True by auto
  next
    case False
    from Cons.prems obtain t c where
      c: "enrich_with_frontmatter L fs (new_Chapter (n + 1) t p False) = Inr c"
      and rest: "efold (auto_step L fs) ps (n + 1, acc @ [c]) = Inr (n', acc')"
      by (auto simp: auto_step_keep[OF False] ebind_eq_Inr)
    have cf: "is_intro c = False \<and> file_path c = p" using enrich_new_Chapter[OF c] .
    have cn: "number c = (case chapter_override L fs p of Some k \<Rightarrow> k | None \<Rightarrow> n + 1)"
      using enrich_new_Chapter_number[OF c] .
    from Cons.IH[OF rest] obtain new where
      a: "acc' = (acc @ [c]) @ new"
      and p: "map file_path new = kept_candidates (map file_path (acc @ [c])) ps"
      and i: "list_all (\<lambda>c. \<not> is_intro c) new"
      and k: "\<forall>k<length new. number (new ! k) =
            (case chapter_override L fs (file_path (new ! k)) of
               Some i \<Rightarrow> i
             | None \<Rightarrow> n + 1 + int k + 1)"
      by blast
    have "\<forall>k<length (c # new). number ((c # new) ! k) =
            (case chapter_override L fs (file_path ((c # new) ! k)) of
               Some i \<Rightarrow> i
             | None \<Rightarrow> n + int k + 1)"
    proof (intro allI impI)
      fix j assume j: "j < length (c # new)"
      show "number ((c # new) ! j) =
            (case chapter_override L fs (file_path ((c # new) ! j)) of
               Some i \<Rightarrow> i
             | None \<Rightarrow> n + int j + 1)"
      proof (cases j)
        case 0
        then show ?thesis using cf cn by (simp split: option.splits)
      next
        case (Suc j')
        then have "j' < length new" using j by simp
        with k have "number (new ! j') =
            (case chapter_override L fs (file_path (new ! j')) of
               Some i \<Rightarrow> i
             | None \<Rightarrow> n + 1 + int j' + 1)"
          by blast
        then show ?thesis using Suc by (simp split: option.splits)
      qed
    qed
    then show ?thesis using a p i cf False
      by (intro exI[of _ "c # new"]) simp
  qed
qed

lemma kept_candidates_subset: "set (kept_candidates seen ps) \<subseteq> set ps"
  by (induction ps arbitrary: seen) auto

lemma kept_candidates_sorted:
  "sorted (map f ps) \<Longrightarrow> sorted (map f (kept_candidates seen ps))"
proof (induction ps arbitrary: seen)
  case Nil
  then show ?case by simp
next
  case (Cons p ps)
  then show ?case using kept_candidates_subset[of "seen @ [p]" ps] by auto
qed

text \<open>
  C5, as amended. The chapters of the auto-detector that are no introduction are, in the
  sort-key order of the candidates, the candidates that are neither the introduction file
  nor in SKIP\_FILES. The \<open>k\<close>-th of them (from 0) has the number \<open>k + 1\<close>, unless the
  frontmatter of its file gives an integer under \<open>chapter\<close>, which is then its number.
\<close>

theorem auto_numbers_follow_candidates:
  assumes "auto_detect L fs r = Inr s"
    and "k < length (filter (\<lambda>c. \<not> is_intro c) (chapters s))"
  shows "(let cs = filter (\<lambda>c. \<not> is_intro c) (chapters s)
          in map file_path cs =
               kept_candidates (case find_intro fs r of None \<Rightarrow> [] | Some p \<Rightarrow> [p])
                 (sort_key sort_key_of (collect_markdown_files fs r))
             \<and> sorted (map sort_key_of (map file_path cs))
             \<and> number (cs ! k) =
                 (case chapter_override L fs (file_path (cs ! k)) of
                    Some i \<Rightarrow> i
                  | None \<Rightarrow> int k + 1))"
proof -
  let ?ys = "sort_key sort_key_of (collect_markdown_files fs r)"
  from assms(1) obtain intro st where i: "auto_intro L fs r = Inr intro"
    and f: "efold (auto_step L fs) ?ys (0, intro) = Inr st"
    and s: "chapters s = snd st"
    by (rule auto_detect_chapters)
  obtain n' acc' where st: "st = (n', acc')" by (cases st)
  from auto_loop_result[OF f[unfolded st]] obtain new where
    a: "acc' = intro @ new"
    and p: "map file_path new = kept_candidates (map file_path intro) ?ys"
    and ni: "list_all (\<lambda>c. \<not> is_intro c) new"
    and n: "\<forall>k<length new. number (new ! k) =
            (case chapter_override L fs (file_path (new ! k)) of
               Some i \<Rightarrow> i
             | None \<Rightarrow> 0 + int k + 1)"
    by blast
  have fi: "filter (\<lambda>c. \<not> is_intro c) intro = []
      \<and> map file_path intro = (case find_intro fs r of None \<Rightarrow> [] | Some p \<Rightarrow> [p])"
    using auto_intro_cases[OF i] by auto
  have fn: "filter (\<lambda>c. \<not> is_intro c) new = new"
    using ni by (simp add: list_all_iff)
  have cs: "filter (\<lambda>c. \<not> is_intro c) (chapters s) = new"
    using s st a fi fn by simp
  have srt: "sorted (map sort_key_of (map file_path new))"
    unfolding p by (rule kept_candidates_sorted) (rule sorted_sort_key)
  have "k < length new" using assms(2) cs by simp
  then have "number (new ! k) =
            (case chapter_override L fs (file_path (new ! k)) of
               Some i \<Rightarrow> i
             | None \<Rightarrow> int k + 1)"
    using n by (simp split: option.splits)
  then show ?thesis unfolding cs Let_def using p fi srt by simp
qed

text \<open>
  The theorem at work on \<open>fs_flat\<close>: the second chapter, \<open>02-two.md\<close>, has number 2; the
  first, \<open>01-one.md\<close>, has the number 5 of its frontmatter.
\<close>

theorem auto_numbers_follow_candidates_witness:
  "\<not> isl (auto_detect sample_lib fs_flat book)
   \<and> map file_path (filter (\<lambda>c. \<not> is_intro c) (chapters (projr (auto_detect sample_lib fs_flat book))))
       = map (\<lambda>n. book @ [n]) [''01-one.md'', ''02-two.md'', ''03.md'', ''B.md'', ''a.md'', ''1000000-z.md'']
   \<and> chapter_override sample_lib fs_flat (book @ [''02-two.md'']) = None
   \<and> number (filter (\<lambda>c. \<not> is_intro c) (chapters (projr (auto_detect sample_lib fs_flat book))) ! 1) = 2
   \<and> chapter_override sample_lib fs_flat (book @ [''01-one.md'']) = Some 5
   \<and> number (filter (\<lambda>c. \<not> is_intro c) (chapters (projr (auto_detect sample_lib fs_flat book))) ! 0) = 5"
proof -
  let ?r = "auto_detect sample_lib fs_flat book"
  let ?cs = "filter (\<lambda>c. \<not> is_intro c) (chapters (projr ?r))"
  have e: "?r = Inr (projr ?r)" by code_simp
  have i: "\<not> isl ?r" by (subst e) simp
  have l: "length ?cs = 6" by code_simp
  have l0: "0 < length ?cs" and l1: "1 < length ?cs" by (simp_all add: l)
  have fi: "find_intro fs_flat book = Some (book @ [''readme.md''])" by code_simp
  have ys: "sort_key sort_key_of (collect_markdown_files fs_flat book)
     = map (\<lambda>n. book @ [n]) [''01-one.md'', ''02-two.md'', ''03.md'', ''B.md'', ''a.md'', ''1000000-z.md'']"
    by code_simp
  have kc: "kept_candidates [book @ [''readme.md'']]
       (map (\<lambda>n. book @ [n]) [''01-one.md'', ''02-two.md'', ''03.md'', ''B.md'', ''a.md'', ''1000000-z.md''])
     = map (\<lambda>n. book @ [n]) [''01-one.md'', ''02-two.md'', ''03.md'', ''B.md'', ''a.md'', ''1000000-z.md'']"
    by code_simp
  have o1: "chapter_override sample_lib fs_flat (book @ [''02-two.md'']) = None" by code_simp
  have o0: "chapter_override sample_lib fs_flat (book @ [''01-one.md'']) = Some 5" by code_simp
  note t0 = auto_numbers_follow_candidates[OF e l0, unfolded Let_def fi ys option.case kc]
  note t1 = auto_numbers_follow_candidates[OF e l1, unfolded Let_def fi ys option.case kc]
  have p: "map file_path ?cs
       = map (\<lambda>n. book @ [n]) [''01-one.md'', ''02-two.md'', ''03.md'', ''B.md'', ''a.md'', ''1000000-z.md'']"
    using t0 by blast
  have f1: "file_path (?cs ! 1) = book @ [''02-two.md'']"
    using arg_cong[OF p, of "\<lambda>xs. xs ! 1"] l1 by simp
  have f0: "file_path (?cs ! 0) = book @ [''01-one.md'']"
    using arg_cong[OF p, of "\<lambda>xs. xs ! 0"] l0 by simp
  have n1: "number (?cs ! 1) = 2" using t1 f1 o1 by simp
  have n0: "number (?cs ! 0) = 5" using t0 f0 o0 by simp
  show ?thesis using i p o1 n1 o0 n0 by (intro conjI)
qed

text \<open>
  C5 as stated fails: on \<open>fs_flat\<close> the numbers of the chapters that are no introduction
  are 5, 2, 3, 4, 5, 6, neither increasing nor starting at 1.
\<close>

theorem frontmatter_chapter_breaks_the_sequence:
  "(case detect_structure sample_lib fs_flat book of
      Inl e \<Rightarrow> []
    | Inr s \<Rightarrow> map (\<lambda>c. (path_name (file_path c), number c)) (filter (\<lambda>c. \<not> is_intro c) (chapters s)))
   = [(''01-one.md'', 5), (''02-two.md'', 2), (''03.md'', 3), (''B.md'', 4), (''a.md'', 5),
      (''1000000-z.md'', 6)]"
  by code_simp

end
